theory Spec2Isabelle
  imports Main "HOL-Library.AList"
begin

section \<open>Data model\<close>

text \<open>
  \<^verbatim>\<open>mermaidAPI.Theme\<close> is a string enumeration; a thrown JavaScript error is
  represented by its message.
\<close>

type_synonym theme = string
type_synonym exn = string

text \<open>
  \<^verbatim>\<open>mermaidAPI.Config\<close> is an opaque object handed to the rendering engine. An
  object is an association list in property order; a property is assigned with
  \<^const>\<open>AList.update\<close>, which overwrites an existing key in place and appends a new one.
\<close>

datatype jsval = JBool bool | JStr string | JNum int | JObj "(string \<times> jsval) list"

type_synonym obj = "(string \<times> jsval) list"

text \<open>The spread \<^verbatim>\<open>{ ...base, ...ext }\<close>: the properties of \<open>ext\<close> are assigned in order.\<close>

definition spread :: "obj \<Rightarrow> obj \<Rightarrow> obj" where
  "spread base ext = foldl (\<lambda>acc (k, v). AList.update k v acc) base ext"

text \<open>\<^verbatim>\<open>Config.theme\<close>: the themes to use when the data theme is light and dark.\<close>

record ThemePair =
  light :: theme
  dark :: theme

record Config =
  theme :: "ThemePair option"
  mermaid :: "obj option"
  showOpenLink :: "bool option"

record MermaidProps =
  chart :: string
  config :: "Config option"

text \<open>
  The root element of the host document, as its attribute list, and a
  \<^verbatim>\<open>MutationRecord\<close> with the three fields the observer callback reads.
\<close>

type_synonym html = "(string \<times> string) list"

record mutation =
  mtype :: string
  attributeName :: "string option"
  target :: html

section \<open>The host environment\<close>

text \<open>
  What the component imports or calls and the sources do not contain is a parameter:
  \<^item> \<open>getTheme\<close> and \<open>DARK_THEME_KEY\<close> come from \<^verbatim>\<open>./theme.helper\<close>;
  \<^item> \<open>disconnect\<close> is what \<^verbatim>\<open>observer.disconnect()\<close> does: \<open>None\<close> when it
    returns, \<open>Some e\<close> when it throws \<open>e\<close>;
  \<^item> \<open>engine_render id text\<close> is what the call \<^verbatim>\<open>mermaid.render(id, text, cb)\<close>
    does synchronously: \<open>None\<close> when the engine accepts the request (its callback comes
    later), \<open>Some e\<close> when it throws \<open>e\<close>;
  \<^item> \<open>createObjectURL\<close> is \<^verbatim>\<open>URL.createObjectURL\<close>.
\<close>

record blob =
  parts :: "string list"
  mime :: string

record host =
  getTheme :: "html \<Rightarrow> Config option \<Rightarrow> theme"
  DARK_THEME_KEY :: theme
  disconnect :: "exn option"
  engine_render :: "string \<Rightarrow> string \<Rightarrow> exn option"
  createObjectURL :: "blob \<Rightarrow> string"

section \<open>The external-view action\<close>

text \<open>
  The calls \<^verbatim>\<open>openSvgInWindow\<close> makes on the host, in order; the window it
  returns is not used by the click handler. The argument is the
  \<open>svg\<close> property of \<^verbatim>\<open>SvgOpenExternal\<close>: \<open>None\<close> is an absent (undefined)
  property; \<^verbatim>\<open>!svg\<close> holds of it and of the empty string, and of no other string.
\<close>

datatype hostcall = CreateObjectURL blob | WindowOpen string

definition openSvgInWindow :: "host \<Rightarrow> string option \<Rightarrow> hostcall list" where
  "openSvgInWindow E svg =
     (case svg of
        None \<Rightarrow> []
      | Some s \<Rightarrow>
          if s = [] then []
          else
            let svgBlob = \<lparr>parts = [s], mime = ''image/svg+xml''\<rparr>;
                url = createObjectURL E svgBlob
            in [CreateObjectURL svgBlob, WindowOpen url])"

section \<open>The component's state\<close>

text \<open>
  Calls the component makes on its collaborators, oldest first:
  \<^verbatim>\<open>new MutationObserver(cb)\<close>, \<^verbatim>\<open>observer.observe(html, { attributes: true })\<close>,
  \<^verbatim>\<open>observer.disconnect()\<close>, \<^verbatim>\<open>mermaid.initialize(options)\<close>,
  \<^verbatim>\<open>mermaid.render(id, text, cb)\<close> and \<^verbatim>\<open>setTimeout(render, 0)\<close>.
\<close>

datatype call =
    NewObserver
  | Observe
  | Disconnect
  | Initialize obj
  | Render string string
  | SetTimeout

text \<open>
  One mounted component: its properties, its two state hooks \<^verbatim>\<open>theme\<close> and
  \<^verbatim>\<open>svg\<close> (\<open>theme_st\<close>, \<open>svg_st\<close>), the module-level counter
  \<^verbatim>\<open>id\<close> (\<open>id_ctr\<close>), the pending \<^verbatim>\<open>setTimeout(render, 0)\<close> closures (oldest first, each with the
  chart it captured), the identifiers of the requests the engine has accepted and not yet
  answered, and the calls made so far.
\<close>

record state =
  props :: MermaidProps
  theme_st :: theme
  svg_st :: string
  id_ctr :: nat
  timers :: "string list"
  inflight :: "string list"
  calls :: "call list"

text \<open>\<^verbatim>\<open>id.toString()\<close>: the decimal digits of the counter.\<close>

fun string_of_nat :: "nat \<Rightarrow> string" where
  "string_of_nat n =
     (if n < 10 then [char_of (48 + n)]
      else string_of_nat (n div 10) @ [char_of (48 + n mod 10)])"

declare string_of_nat.simps [simp del]

definition render_id :: "state \<Rightarrow> string" where
  "render_id s = ''mermaid-svg-'' @ string_of_nat (id_ctr s)"

section \<open>Exceptions\<close>

text \<open>
  A computation returns the exception it threw, if any, with the state it left behind.
  \<open>then_do\<close> is sequencing; \<open>try_catch\<close> is \<^verbatim>\<open>try { body } catch { handler }\<close>.
\<close>

type_synonym 's outcome = "exn option \<times> 's"

definition then_do :: "'s outcome \<Rightarrow> ('s \<Rightarrow> 's outcome) \<Rightarrow> 's outcome" where
  "then_do m f = (case m of (Some e, s) \<Rightarrow> (Some e, s) | (None, s) \<Rightarrow> f s)"

definition try_catch :: "'s outcome \<Rightarrow> ('s \<Rightarrow> 's outcome) \<Rightarrow> 's outcome" where
  "try_catch body handler = (case body of (None, s) \<Rightarrow> (None, s) | (Some e, s) \<Rightarrow> handler s)"

section \<open>The two effects\<close>

text \<open>The observer effect and its cleanup, which swallows whatever the disconnection throws.\<close>

definition observer_effect :: "state \<Rightarrow> state" where
  "observer_effect s = s\<lparr>calls := calls s @ [NewObserver, Observe]\<rparr>"

definition observer_disconnect :: "host \<Rightarrow> state \<Rightarrow> state outcome" where
  "observer_disconnect E s = (disconnect E, s\<lparr>calls := calls s @ [Disconnect]\<rparr>)"

definition observer_cleanup :: "host \<Rightarrow> state \<Rightarrow> state outcome" where
  "observer_cleanup E s = try_catch (observer_disconnect E s) (\<lambda>s'. (None, s'))"

text \<open>
  The observer's callback: the first mutation of the attribute \<^verbatim>\<open>data-theme\<close> decides,
  and the result is the argument given to \<^verbatim>\<open>setTheme\<close>, if it is called at all.
\<close>

fun observer_callback :: "host \<Rightarrow> Config option \<Rightarrow> mutation list \<Rightarrow> theme option" where
  "observer_callback E cfg [] = None"
| "observer_callback E cfg (m # ms) =
     (if mtype m \<noteq> ''attributes'' \<or> attributeName m \<noteq> Some ''data-theme''
      then observer_callback E cfg ms
      else Some (getTheme E (target m) cfg))"

text \<open>
  The inner function \<^verbatim>\<open>render\<close> of the render effect, with the chart its closure holds:
  the counter is incremented after the engine has taken the request.
\<close>

definition render :: "host \<Rightarrow> string \<Rightarrow> state \<Rightarrow> state outcome" where
  "render E text s =
     (let s1 = s\<lparr>calls := calls s @ [Render (render_id s) text]\<rparr>
      in case engine_render E (render_id s) text of
           Some e \<Rightarrow> (Some e, s1)
         | None \<Rightarrow> (None, s1\<lparr>inflight := inflight s1 @ [render_id s], id_ctr := id_ctr s1 + 1\<rparr>))"

definition init_options :: "Config \<Rightarrow> theme \<Rightarrow> obj" where
  "init_options c th =
     (case mermaid c of
        Some m \<Rightarrow> AList.update ''theme'' (JStr th) (spread [(''startOnLoad'', JBool True)] m)
      | None \<Rightarrow> [(''startOnLoad'', JBool True), (''theme'', JStr th)])"

definition render_effect :: "host \<Rightarrow> state \<Rightarrow> state outcome" where
  "render_effect E s =
     (case config (props s) of
        Some c \<Rightarrow>
          render E (chart (props s))
            (s\<lparr>calls := calls s @ [Initialize (init_options c (theme_st s))]\<rparr>)
      | None \<Rightarrow>
          (None, s\<lparr>calls := calls s @ [SetTimeout], timers := timers s @ [chart (props s)]\<rparr>))"

section \<open>Rendering passes and events\<close>

text \<open>
  After a change of state or properties the component function runs again, and an effect
  runs again when one of its dependencies differs: \<^verbatim>\<open>[chart, config, theme]\<close> for the
  observer effect (its cleanup first), \<^verbatim>\<open>[theme, chart]\<close> for the render effect.
  Dependencies are compared with \<^verbatim>\<open>Object.is\<close>: the two strings by value, the
  configuration by identity, and \<open>newcfg\<close> says that the configuration is not the
  object it was at the previous pass. The component function also resolves the theme
  again at each pass, as the argument of \<^verbatim>\<open>useState\<close>, which ignores it after the
  first.
\<close>

definition rerender :: "host \<Rightarrow> bool \<Rightarrow> state \<Rightarrow> state \<Rightarrow> state outcome" where
  "rerender E newcfg old s =
     then_do
       (if chart (props old) \<noteq> chart (props s) \<or> newcfg \<or> theme_st old \<noteq> theme_st s
        then then_do (observer_cleanup E s) (\<lambda>s'. (None, observer_effect s'))
        else (None, s))
       (\<lambda>s'. if (theme_st old, chart (props old)) \<noteq> (theme_st s, chart (props s))
             then render_effect E s'
             else (None, s'))"

text \<open>A state setter given the current value does not cause a rendering pass.\<close>

definition setTheme :: "host \<Rightarrow> theme \<Rightarrow> state \<Rightarrow> state outcome" where
  "setTheme E t s = (if t = theme_st s then (None, s) else rerender E False s (s\<lparr>theme_st := t\<rparr>))"

definition setSvg :: "host \<Rightarrow> string \<Rightarrow> state \<Rightarrow> state outcome" where
  "setSvg E r s = (if r = svg_st s then (None, s) else rerender E False s (s\<lparr>svg_st := r\<rparr>))"

text \<open>
  What can happen to a mounted component: the observer delivers a batch of mutations;
  the parent passes properties, with a flag that says whether the configuration is a
  fresh object (one of another value always is); the oldest pending timer fires; or the
  engine answers a request it had accepted, by calling that request's callback with the
  rendered svg. The engine answers a request at most once.
\<close>

datatype event =
    Mutations "mutation list"
  | Props MermaidProps bool
  | Timer
  | Complete string string

fun step :: "host \<Rightarrow> event \<Rightarrow> state \<Rightarrow> state outcome" where
  "step E (Mutations ms) s =
     (case observer_callback E (config (props s)) ms of
        None \<Rightarrow> (None, s)
      | Some t \<Rightarrow> setTheme E t s)"
| "step E (Props p fresh) s =
     rerender E (fresh \<or> config p \<noteq> config (props s)) s (s\<lparr>props := p\<rparr>)"
| "step E Timer s =
     (case timers s of
        [] \<Rightarrow> (None, s)
      | text # rest \<Rightarrow> render E text (s\<lparr>timers := rest\<rparr>))"
| "step E (Complete rid r) s =
     (if rid \<in> set (inflight s)
      then setSvg E r (s\<lparr>inflight := remove1 rid (inflight s)\<rparr>)
      else (None, s))"

text \<open>A sequence of events, up to the first exception that escapes.\<close>

fun run :: "host \<Rightarrow> event list \<Rightarrow> state \<Rightarrow> state outcome" where
  "run E [] s = (None, s)"
| "run E (ev # evs) s = then_do (step E ev s) (run E evs)"

section \<open>Mounting, unmounting and the rendered element\<close>

text \<open>
  Without a window the component function returns before any hook: there is no state,
  no effect runs and nothing is called. Otherwise the theme is read from the root element,
  the svg starts empty and both effects run, the module-level counter standing at \<open>n\<close>.
\<close>

datatype component = Placeholder | Mounted state

definition mount :: "host \<Rightarrow> bool \<Rightarrow> html \<Rightarrow> MermaidProps \<Rightarrow> nat \<Rightarrow> component outcome" where
  "mount E window root p n =
     (if \<not> window then (None, Placeholder)
      else
        let s0 = \<lparr>props = p, theme_st = getTheme E root (config p), svg_st = [],
                  id_ctr = n, timers = [], inflight = [], calls = []\<rparr>
        in case render_effect E (observer_effect s0) of (x, s) \<Rightarrow> (x, Mounted s))"

definition unmount :: "host \<Rightarrow> state \<Rightarrow> state outcome" where
  "unmount E s = observer_cleanup E s"

text \<open>The element the component function returns.\<close>

record opener =
  fillColor :: string
  opener_svg :: string

datatype element =
    EmptyDiv
  | Wrapper "opener option" string

definition SvgOpenExternal :: "host \<Rightarrow> theme \<Rightarrow> string \<Rightarrow> opener" where
  "SvgOpenExternal E th sv =
     \<lparr>fillColor = (if DARK_THEME_KEY E = th then ''#FFF'' else ''#000''), opener_svg = sv\<rparr>"

definition shows_open_link :: "Config option \<Rightarrow> bool" where
  "shows_open_link cfg =
     (case cfg of None \<Rightarrow> False
      | Some c \<Rightarrow> (case showOpenLink c of None \<Rightarrow> False | Some b \<Rightarrow> b))"

fun Mermaid :: "host \<Rightarrow> component \<Rightarrow> element" where
  "Mermaid E Placeholder = EmptyDiv"
| "Mermaid E (Mounted s) =
     Wrapper
       (if shows_open_link (config (props s))
        then Some (SvgOpenExternal E (theme_st s) (svg_st s)) else None)
       (svg_st s)"

fun calls_of :: "component \<Rightarrow> call list" where
  "calls_of Placeholder = []"
| "calls_of (Mounted s) = calls s"

fun theme_of :: "component \<Rightarrow> theme option" where
  "theme_of Placeholder = None"
| "theme_of (Mounted s) = Some (theme_st s)"

text \<open>Clicking the opener runs \<^verbatim>\<open>openSvgInWindow\<close> on the svg the opener was given.\<close>

fun click_opener :: "host \<Rightarrow> element \<Rightarrow> hostcall list" where
  "click_opener E (Wrapper (Some b) markup) = openSvgInWindow E (Some (opener_svg b))"
| "click_opener E (Wrapper None markup) = []"
| "click_opener E EmptyDiv = []"

text \<open>A component from its mounting through a sequence of events.\<close>

definition lifecycle ::
  "host \<Rightarrow> bool \<Rightarrow> html \<Rightarrow> MermaidProps \<Rightarrow> nat \<Rightarrow> event list \<Rightarrow> component outcome" where
  "lifecycle E window root p n evs =
     (case mount E window root p n of
        (Some e, c) \<Rightarrow> (Some e, c)
      | (None, Placeholder) \<Rightarrow> (None, Placeholder)
      | (None, Mounted s) \<Rightarrow> (case run E evs s of (x, s') \<Rightarrow> (x, Mounted s')))"

fun svg_of :: "component \<Rightarrow> string option" where
  "svg_of Placeholder = None"
| "svg_of (Mounted s) = Some (svg_st s)"

fun is_completion :: "event \<Rightarrow> bool" where
  "is_completion (Complete rid r) = True"
| "is_completion ev = False"

fun is_render :: "call \<Rightarrow> bool" where
  "is_render (Render rid text) = True"
| "is_render c = False"

fun is_initialize :: "call \<Rightarrow> bool" where
  "is_initialize (Initialize a) = True"
| "is_initialize c = False"

definition renders :: "call list \<Rightarrow> nat" where
  "renders cs = length (filter is_render cs)"

definition initializations :: "call list \<Rightarrow> nat" where
  "initializations cs = length (filter is_initialize cs)"

section \<open>Example values\<close>

text \<open>
  A host whose resolver reads the attribute \<^verbatim>\<open>data-theme\<close>, whose observer fails to
  disconnect and whose engine rejects the empty diagram; two configurations; a mutation
  of the theme attribute and one of another attribute.
\<close>

definition example_host :: host where
  "example_host =
     \<lparr>getTheme = (\<lambda>h c. if map_of h ''data-theme'' = Some ''dark'' then ''dark'' else ''default''),
      DARK_THEME_KEY = ''dark'',
      disconnect = Some ''disconnect failed'',
      engine_render = (\<lambda>rid text. if text = [] then Some ''Parse error'' else None),
      createObjectURL = (\<lambda>b. ''blob:'' @ concat (parts b))\<rparr>"

definition plain_config :: Config where
  "plain_config = \<lparr>theme = None, mermaid = None, showOpenLink = Some True\<rparr>"

definition engine_config :: Config where
  "engine_config =
     \<lparr>theme = None,
      mermaid = Some [(''theme'', JStr ''forest''), (''securityLevel'', JStr ''loose'')],
      showOpenLink = None\<rparr>"

definition example_chart :: string where
  "example_chart = ''graph TD; A-->B;''"

definition to_dark :: mutation where
  "to_dark =
     \<lparr>mtype = ''attributes'', attributeName = Some ''data-theme'',
      target = [(''data-theme'', ''dark'')]\<rparr>"

definition to_class :: mutation where
  "to_class =
     \<lparr>mtype = ''attributes'', attributeName = Some ''class'',
      target = [(''class'', ''wide'')]\<rparr>"

definition child_added :: mutation where
  "child_added = \<lparr>mtype = ''childList'', attributeName = None, target = []\<rparr>"

definition example_state :: state where
  "example_state =
     \<lparr>props = \<lparr>chart = example_chart, config = Some plain_config\<rparr>,
      theme_st = ''default'', svg_st = ''<svg>old</svg>'', id_ctr = 2, timers = [],
      inflight = [''mermaid-svg-0'', ''mermaid-svg-1''], calls = []\<rparr>"

definition engine_state :: state where
  "engine_state =
     example_state\<lparr>props := \<lparr>chart = example_chart, config = Some engine_config\<rparr>,
                   theme_st := ''dark''\<rparr>"

definition dark_state :: state where
  "dark_state =
     example_state\<lparr>theme_st := ''dark'', id_ctr := 3,
       inflight := [''mermaid-svg-0'', ''mermaid-svg-1'', ''mermaid-svg-2''],
       calls := [Disconnect, NewObserver, Observe,
                 Initialize [(''startOnLoad'', JBool True), (''theme'', JStr ''dark'')],
                 Render ''mermaid-svg-2'' ''graph TD; A-->B;'']\<rparr>"

section \<open>Basic facts\<close>

lemma then_do_None [simp]: "then_do (None, s) f = f s"
  by (simp add: then_do_def)

lemma then_do_Some [simp]: "then_do (Some e, s) f = (Some e, s)"
  by (simp add: then_do_def)

lemma observer_cleanup_eq: "observer_cleanup E s = (None, s\<lparr>calls := calls s @ [Disconnect]\<rparr>)"
  by (simp add: observer_cleanup_def observer_disconnect_def try_catch_def split: option.splits)

lemma render_frame:
  "props (snd (render E text s)) = props s"
  "theme_st (snd (render E text s)) = theme_st s"
  "svg_st (snd (render E text s)) = svg_st s"
  "timers (snd (render E text s)) = timers s"
  by (simp_all add: render_def Let_def split: option.splits)

lemma render_effect_frame:
  "props (snd (render_effect E s)) = props s"
  "theme_st (snd (render_effect E s)) = theme_st s"
  "svg_st (snd (render_effect E s)) = svg_st s"
  by (simp_all add: render_effect_def render_frame split: option.splits)

lemma rerender_unfold:
  "rerender E newcfg old s =
     (if (theme_st old, chart (props old)) \<noteq> (theme_st s, chart (props s))
      then render_effect E (observer_effect (s\<lparr>calls := calls s @ [Disconnect]\<rparr>))
      else if newcfg
      then (None, observer_effect (s\<lparr>calls := calls s @ [Disconnect]\<rparr>))
      else (None, s))"
  by (auto simp add: rerender_def observer_cleanup_eq)

lemma rerender_frame:
  "props (snd (rerender E newcfg old s)) = props s"
  "theme_st (snd (rerender E newcfg old s)) = theme_st s"
  "svg_st (snd (rerender E newcfg old s)) = svg_st s"
  by (simp_all add: rerender_unfold render_effect_frame observer_effect_def)

lemma step_svg: "\<not> is_completion ev \<Longrightarrow> svg_st (snd (step E ev s)) = svg_st s"
  by (cases ev) (simp_all add: setTheme_def rerender_frame render_frame split: option.splits list.splits)

lemma run_svg:
  "\<forall>ev \<in> set evs. \<not> is_completion ev \<Longrightarrow> svg_st (snd (run E evs s)) = svg_st s"
proof (induction evs arbitrary: s)
  case Nil
  then show ?case by simp
next
  case (Cons ev evs)
  obtain x s1 where st: "step E ev s = (x, s1)" by (cases "step E ev s")
  have s1: "svg_st s1 = svg_st s" using step_svg [of ev E s] Cons.prems st by simp
  show ?case
  proof (cases x)
    case None
    then show ?thesis using Cons.IH [of s1] Cons.prems st s1 by simp
  next
    case (Some e)
    then show ?thesis using st s1 by simp
  qed
qed

lemma step_throw_svg: "step E ev s = (Some e, s') \<Longrightarrow> svg_st s' = svg_st s"
proof (cases "is_completion ev")
  case False
  assume "step E ev s = (Some e, s')"
  then show ?thesis using step_svg [OF False, of E s] by simp
next
  case True
  assume a: "step E ev s = (Some e, s')"
  from True obtain rid r where ev: "ev = Complete rid r" by (cases ev) simp_all
  show ?thesis using a unfolding ev
    by (simp add: setSvg_def rerender_unfold split: if_splits)
qed

lemma run_append: "run E (evs @ evs') s = then_do (run E evs s) (run E evs')"
proof (induction evs arbitrary: s)
  case Nil
  then show ?case by simp
next
  case (Cons ev evs)
  obtain x s1 where st: "step E ev s = (x, s1)" by (cases "step E ev s")
  show ?case using Cons.IH [of s1] st by (cases x) simp_all
qed

lemma step_Complete:
  "rid \<in> set (inflight s) \<Longrightarrow>
   step E (Complete rid r) s = (None, s\<lparr>inflight := remove1 rid (inflight s), svg_st := r\<rparr>)"
  by (simp add: setSvg_def rerender_unfold)

lemma mount_window:
  "mount E True root p n =
     (fst (render_effect E (observer_effect
        \<lparr>props = p, theme_st = getTheme E root (config p), svg_st = [],
         id_ctr = n, timers = [], inflight = [], calls = []\<rparr>)),
      Mounted (snd (render_effect E (observer_effect
        \<lparr>props = p, theme_st = getTheme E root (config p), svg_st = [],
         id_ctr = n, timers = [], inflight = [], calls = []\<rparr>))))"
  by (simp add: mount_def Let_def split: prod.splits)

lemma map_of_spread:
  "distinct (map fst ext) \<Longrightarrow> map_of (spread base ext) k = (map_of base ++ map_of ext) k"
proof (induction ext arbitrary: base)
  case Nil
  then show ?case by (simp add: spread_def)
next
  case (Cons kv ext)
  obtain k' v where kv: "kv = (k', v)" by (cases kv)
  have none: "map_of ext k' = None"
    using Cons.prems kv by (simp add: map_of_eq_None_iff)
  have "map_of (spread base (kv # ext)) k = map_of (spread (AList.update k' v base) ext) k"
    by (simp add: spread_def kv)
  also have "\<dots> = (map_of (AList.update k' v base) ++ map_of ext) k"
    using Cons.IH [of "AList.update k' v base"] Cons.prems by simp
  also have "\<dots> = (map_of base ++ map_of (kv # ext)) k"
    using none by (simp add: kv map_add_def update_conv split: option.splits)
  finally show ?case .
qed

lemma init_options_theme: "map_of (init_options c th) ''theme'' = Some (JStr th)"
  by (simp add: init_options_def update_conv split: option.splits)

lemma init_options_other:
  assumes "mermaid c = Some m" and "distinct (map fst m)" and "k \<noteq> ''theme''"
  shows "map_of (init_options c th) k = (map_of [(''startOnLoad'', JBool True)] ++ map_of m) k"
  using assms by (simp add: init_options_def update_conv map_of_spread)

lemma render_calls: "calls (snd (render E text s)) = calls s @ [Render (render_id s) text]"
  by (simp add: render_def Let_def split: option.splits)

lemma render_id_upd [simp]:
  "render_id (s\<lparr>calls := cs\<rparr>) = render_id s"
  "render_id (s\<lparr>timers := ts\<rparr>) = render_id s"
  "render_id (s\<lparr>theme_st := t\<rparr>) = render_id s"
  "render_id (s\<lparr>props := p\<rparr>) = render_id s"
  by (simp_all add: render_id_def)

lemma render_effect_config:
  "config (props s) = Some c \<Longrightarrow>
   calls (snd (render_effect E s)) =
     calls s @ [Initialize (init_options c (theme_st s)), Render (render_id s) (chart (props s))]"
  by (simp add: render_effect_def render_calls)

lemma render_effect_no_config:
  "config (props s) = None \<Longrightarrow>
   render_effect E s =
     (None, s\<lparr>calls := calls s @ [SetTimeout], timers := timers s @ [chart (props s)]\<rparr>)"
  by (simp add: render_effect_def)

lemma timer_calls:
  "timers s = text # rest \<Longrightarrow>
   calls (snd (step E Timer s)) = calls s @ [Render (render_id s) text]"
  by (simp add: render_calls)

lemma observer_callback_unrelated:
  "\<forall>m \<in> set ms. mtype m \<noteq> ''attributes'' \<or> attributeName m \<noteq> Some ''data-theme'' \<Longrightarrow>
   observer_callback E cfg ms = None"
  by (induction ms) auto

lemma render_effect_result:
  assumes "render_effect E s = (x, s')"
  shows "(\<forall>c. config (props s) = Some c \<longrightarrow>
            calls s' = calls s @ [Initialize (init_options c (theme_st s)),
                                  Render (render_id s) (chart (props s))]
            \<and> timers s' = timers s
            \<and> (x = None \<longrightarrow> id_ctr s' = Suc (id_ctr s) \<and> inflight s' = inflight s @ [render_id s]))
         \<and> (config (props s) = None \<longrightarrow>
            x = None \<and> calls s' = calls s @ [SetTimeout] \<and> id_ctr s' = id_ctr s
            \<and> inflight s' = inflight s \<and> timers s' = timers s @ [chart (props s)])"
  using assms
  by (auto simp add: render_effect_def render_def Let_def split: option.splits)

lemma step_changed:
  assumes "step E ev s = (x, s')"
    and "(theme_st s', chart (props s')) \<noteq> (theme_st s, chart (props s))"
  shows "\<exists>s1. render_effect E s1 = (x, s')
           \<and> props s1 = props s' \<and> theme_st s1 = theme_st s'
           \<and> calls s1 = calls s @ [Disconnect, NewObserver, Observe]
           \<and> id_ctr s1 = id_ctr s \<and> inflight s1 = inflight s \<and> timers s1 = timers s"
proof (cases ev)
  case (Mutations ms)
  show ?thesis
  proof (cases "observer_callback E (config (props s)) ms")
    case None
    then show ?thesis using assms Mutations by simp
  next
    case (Some t)
    show ?thesis
    proof (cases "t = theme_st s")
      case True
      then show ?thesis using assms Mutations Some by (simp add: setTheme_def)
    next
      case False
      let ?s1 = "observer_effect (s\<lparr>theme_st := t, calls := calls s @ [Disconnect]\<rparr>)"
      have r: "render_effect E ?s1 = (x, s')"
        using assms(1) Mutations Some False by (simp add: setTheme_def rerender_unfold)
      have "props s' = props ?s1" "theme_st s' = theme_st ?s1"
        using render_effect_frame [of E ?s1] r by simp_all
      then show ?thesis using r by (intro exI [of _ ?s1]) (simp add: observer_effect_def)
    qed
  qed
next
  case (Props p fresh)
  show ?thesis
  proof (cases "(theme_st s, chart (props s)) \<noteq> (theme_st s, chart p)")
    case True
    let ?s1 = "observer_effect (s\<lparr>props := p, calls := calls s @ [Disconnect]\<rparr>)"
    have r: "render_effect E ?s1 = (x, s')"
      using assms(1) Props True by (simp add: rerender_unfold)
    have "props s' = props ?s1" "theme_st s' = theme_st ?s1"
      using render_effect_frame [of E ?s1] r by simp_all
    then show ?thesis using r by (intro exI [of _ ?s1]) (simp add: observer_effect_def)
  next
    case False
    have "theme_st s' = theme_st s" "props s' = p"
      using rerender_frame [of E "fresh \<or> config p \<noteq> config (props s)" s "s\<lparr>props := p\<rparr>"]
        assms(1) Props by simp_all
    then show ?thesis using assms(2) False by simp
  qed
next
  case Timer
  have "theme_st s' = theme_st s \<and> props s' = props s"
  proof (cases "timers s")
    case Nil
    then show ?thesis using assms(1) Timer by simp
  next
    case (Cons diagram rest)
    then show ?thesis
      using render_frame [of E diagram "s\<lparr>timers := rest\<rparr>"] assms(1) Timer by simp
  qed
  then show ?thesis using assms(2) by simp
next
  case (Complete rid r)
  have "theme_st s' = theme_st s \<and> props s' = props s"
    using assms(1) Complete by (auto simp add: setSvg_def rerender_unfold split: if_splits)
  then show ?thesis using assms(2) by simp
qed

lemma step_changed_calls:
  assumes "step E ev s = (x, s')"
    and "(theme_st s', chart (props s')) \<noteq> (theme_st s, chart (props s))"
  shows "(\<forall>c. config (props s') = Some c \<longrightarrow>
            calls s' = calls s @ [Disconnect, NewObserver, Observe,
                                  Initialize (init_options c (theme_st s')),
                                  Render (render_id s) (chart (props s'))]
            \<and> timers s' = timers s
            \<and> (x = None \<longrightarrow> id_ctr s' = Suc (id_ctr s) \<and> inflight s' = inflight s @ [render_id s]))
         \<and> (config (props s') = None \<longrightarrow>
            x = None \<and> calls s' = calls s @ [Disconnect, NewObserver, Observe, SetTimeout]
            \<and> id_ctr s' = id_ctr s \<and> inflight s' = inflight s
            \<and> timers s' = timers s @ [chart (props s')])"
proof -
  from step_changed [OF assms] obtain s1 where r: "render_effect E s1 = (x, s')"
    and f: "props s1 = props s'" "theme_st s1 = theme_st s'"
      "calls s1 = calls s @ [Disconnect, NewObserver, Observe]"
      "id_ctr s1 = id_ctr s" "inflight s1 = inflight s" "timers s1 = timers s"
    by blast
  have i: "render_id s1 = render_id s" using f by (simp add: render_id_def)
  show ?thesis using render_effect_result [OF r] f i by simp
qed

lemma mount_calls:
  assumes "mount E True root p n = (x, Mounted s0)"
  shows "(\<forall>c. config p = Some c \<longrightarrow>
            calls s0 = [NewObserver, Observe,
                        Initialize (init_options c (getTheme E root (config p))),
                        Render (''mermaid-svg-'' @ string_of_nat n) (chart p)]
            \<and> timers s0 = []
            \<and> (x = None \<longrightarrow> id_ctr s0 = Suc n \<and> inflight s0 = [''mermaid-svg-'' @ string_of_nat n]))
         \<and> (config p = None \<longrightarrow>
            x = None \<and> calls s0 = [NewObserver, Observe, SetTimeout] \<and> id_ctr s0 = n
            \<and> inflight s0 = [] \<and> timers s0 = [chart p])"
proof -
  let ?s = "observer_effect \<lparr>props = p, theme_st = getTheme E root (config p), svg_st = [],
         id_ctr = n, timers = [], inflight = [], calls = []\<rparr>"
  have r: "render_effect E ?s = (x, s0)"
    using assms by (simp add: mount_window prod_eq_iff)
  show ?thesis using render_effect_result [OF r]
    by (simp add: observer_effect_def render_id_def)
qed

lemma timer_result:
  assumes "timers s = diagram # rest" and "step E Timer s = (x, s')"
  shows "calls s' = calls s @ [Render (render_id s) diagram] \<and> timers s' = rest
         \<and> (x = None \<longrightarrow> id_ctr s' = Suc (id_ctr s) \<and> inflight s' = inflight s @ [render_id s])"
  using assms by (auto simp add: render_def Let_def split: option.splits)

section \<open>Completion callbacks and the displayed svg\<close>

text \<open>
  C1, as the code has it: the component compares no sequence numbers and discards nothing.
  After any history of events that raised no exception, the completion callback of any
  request still in flight, whether or not newer requests have been issued since, sets the
  displayed svg to the result it was called with, and takes that request out of flight.
  The displayed svg is therefore the result of the most recently completed callback,
  whichever request that callback answers.
\<close>

theorem completion_overwrites_svg:
  assumes "fst (run E evs s) = None"
    and "rid \<in> set (inflight (snd (run E evs s)))"
  shows "run E (evs @ [Complete rid r]) s =
           (None, (snd (run E evs s))
              \<lparr>inflight := remove1 rid (inflight (snd (run E evs s))), svg_st := r\<rparr>)"
proof -
  obtain s1 where r1: "run E evs s = (None, s1)"
    using assms(1) by (cases "run E evs s") simp
  have "rid \<in> set (inflight s1)" using assms(2) r1 by simp
  then have "step E (Complete rid r) s1 =
      (None, s1\<lparr>inflight := remove1 rid (inflight s1), svg_st := r\<rparr>)"
    by (rule step_Complete)
  then show ?thesis using r1 by (simp add: run_append del: step.simps)
qed

theorem completion_overwrites_svg_witness:
  "fst (run example_host [Mutations [to_dark]] example_state) = None
   \<and> inflight (snd (run example_host [Mutations [to_dark]] example_state))
       = [''mermaid-svg-0'', ''mermaid-svg-1'', ''mermaid-svg-2'']
   \<and> svg_st (snd (run example_host ([Mutations [to_dark]] @ [Complete ''mermaid-svg-0'' ''<svg>A</svg>''])
        example_state)) = ''<svg>A</svg>''"
proof -
  have h1: "fst (run example_host [Mutations [to_dark]] example_state) = None"
    by code_simp
  have h2: "inflight (snd (run example_host [Mutations [to_dark]] example_state))
       = [''mermaid-svg-0'', ''mermaid-svg-1'', ''mermaid-svg-2'']"
    by code_simp
  have h3: "''mermaid-svg-0'' \<in> set (inflight (snd (run example_host [Mutations [to_dark]] example_state)))"
    unfolding h2 by simp
  show ?thesis
    using completion_overwrites_svg [OF h1 h3, of "''<svg>A</svg>''"] h1 h2 by simp
qed

text \<open>
  C1 as stated fails: with a configuration present the component is mounted (request
  \<^verbatim>\<open>mermaid-svg-0\<close>), the theme changes to dark (request \<^verbatim>\<open>mermaid-svg-1\<close>), the
  engine answers the second request and then the first. The svg on display is the first
  request's.
\<close>

theorem stale_completion_counterexample:
  "calls_of (snd (lifecycle example_host True []
       \<lparr>chart = example_chart, config = Some plain_config\<rparr> 0 [Mutations [to_dark]]))
     = [NewObserver, Observe,
        Initialize [(''startOnLoad'', JBool True), (''theme'', JStr ''default'')],
        Render ''mermaid-svg-0'' ''graph TD; A-->B;'',
        Disconnect, NewObserver, Observe,
        Initialize [(''startOnLoad'', JBool True), (''theme'', JStr ''dark'')],
        Render ''mermaid-svg-1'' ''graph TD; A-->B;'']
   \<and> svg_of (snd (lifecycle example_host True []
       \<lparr>chart = example_chart, config = Some plain_config\<rparr> 0
       [Mutations [to_dark], Complete ''mermaid-svg-1'' ''<svg>B</svg>'',
        Complete ''mermaid-svg-0'' ''<svg>A</svg>''])) = Some ''<svg>A</svg>''"
  by code_simp

section \<open>Engine initialisation\<close>

text \<open>
  C2, as the code has it. When a configuration is present, every run of the render effect
  calls \<^verbatim>\<open>mermaid.initialize\<close> immediately before \<^verbatim>\<open>mermaid.render\<close>; the options
  passed have the resolved theme under \<^verbatim>\<open>theme\<close>, whatever theme the caller's engine
  options held; the other engine options (of a well-formed object, whose keys are
  distinct) are passed unchanged over the default \<^verbatim>\<open>startOnLoad: true\<close>; and when the
  configuration has no engine options the options are exactly \<^verbatim>\<open>startOnLoad: true\<close>
  and the theme. When no configuration is present the effect initialises nothing: it
  only schedules the render with \<^verbatim>\<open>setTimeout\<close>, and the deferred render, when its
  timer fires, calls \<^verbatim>\<open>mermaid.render\<close> alone.
\<close>

theorem render_effect_initialization:
  "(\<forall>c. config (props s) = Some c \<longrightarrow>
      calls (snd (render_effect E s)) =
        calls s @ [Initialize (init_options c (theme_st s)),
                   Render (render_id s) (chart (props s))]
      \<and> map_of (init_options c (theme_st s)) ''theme'' = Some (JStr (theme_st s))
      \<and> (\<forall>m k. mermaid c = Some m \<and> distinct (map fst m) \<and> k \<noteq> ''theme'' \<longrightarrow>
            map_of (init_options c (theme_st s)) k
              = (map_of [(''startOnLoad'', JBool True)] ++ map_of m) k)
      \<and> (mermaid c = None \<longrightarrow>
            init_options c (theme_st s)
              = [(''startOnLoad'', JBool True), (''theme'', JStr (theme_st s))]))
   \<and> (config (props s) = None \<longrightarrow>
        render_effect E s =
          (None, s\<lparr>calls := calls s @ [SetTimeout], timers := timers s @ [chart (props s)]\<rparr>))
   \<and> (\<forall>text rest. timers s = text # rest \<longrightarrow>
        calls (snd (step E Timer s)) = calls s @ [Render (render_id s) text])"
proof (intro conjI allI impI)
  fix c assume "config (props s) = Some c"
  then show "calls (snd (render_effect E s)) =
        calls s @ [Initialize (init_options c (theme_st s)),
                   Render (render_id s) (chart (props s))]"
    by (rule render_effect_config)
next
  fix c :: Config
  show "map_of (init_options c (theme_st s)) ''theme'' = Some (JStr (theme_st s))"
    by (rule init_options_theme)
next
  fix c :: Config and m :: obj and k :: string
  assume "mermaid c = Some m \<and> distinct (map fst m) \<and> k \<noteq> ''theme''"
  then show "map_of (init_options c (theme_st s)) k
              = (map_of [(''startOnLoad'', JBool True)] ++ map_of m) k"
    using init_options_other [of c m k "theme_st s"] by blast
next
  fix c :: Config
  assume "mermaid c = None"
  then show "init_options c (theme_st s)
              = [(''startOnLoad'', JBool True), (''theme'', JStr (theme_st s))]"
    by (simp add: init_options_def)
next
  assume "config (props s) = None"
  then show "render_effect E s =
          (None, s\<lparr>calls := calls s @ [SetTimeout], timers := timers s @ [chart (props s)]\<rparr>)"
    by (rule render_effect_no_config)
next
  fix diagram rest
  assume "timers s = diagram # rest"
  then show "calls (snd (step E Timer s)) = calls s @ [Render (render_id s) diagram]"
    by (rule timer_calls)
qed

theorem render_effect_initialization_witness:
  "config (props engine_state) = Some engine_config
   \<and> calls (snd (render_effect example_host engine_state)) =
        [Initialize [(''startOnLoad'', JBool True), (''theme'', JStr ''dark''),
                     (''securityLevel'', JStr ''loose'')],
         Render ''mermaid-svg-2'' ''graph TD; A-->B;'']
   \<and> map_of (init_options engine_config ''dark'') ''securityLevel'' = Some (JStr ''loose'')"
proof -
  have h: "config (props engine_state) = Some engine_config"
    by (simp add: engine_state_def)
  have t: "theme_st engine_state = ''dark''" "calls engine_state = []" "chart (props engine_state) = example_chart"
    by (simp_all add: engine_state_def example_state_def)
  have i: "init_options engine_config ''dark'' =
      [(''startOnLoad'', JBool True), (''theme'', JStr ''dark''), (''securityLevel'', JStr ''loose'')]"
    by code_simp
  have r: "render_id engine_state = ''mermaid-svg-2''"
    by code_simp
  show ?thesis
    using render_effect_initialization [of engine_state example_host] h
    by (simp add: t i r example_chart_def)
qed

text \<open>
  C2 as stated fails where the engine options are absent. With a configuration that has
  none, the engine is initialised at once, with no timer, and again before the second
  render. With no configuration at all, the engine is never initialised and every
  render, not only the first, is deferred.
\<close>

theorem initialization_not_deferred_counterexample:
  "mermaid plain_config = None
   \<and> calls_of (snd (lifecycle example_host True []
       \<lparr>chart = example_chart, config = Some plain_config\<rparr> 0 [Mutations [to_dark]]))
     = [NewObserver, Observe,
        Initialize [(''startOnLoad'', JBool True), (''theme'', JStr ''default'')],
        Render ''mermaid-svg-0'' ''graph TD; A-->B;'',
        Disconnect, NewObserver, Observe,
        Initialize [(''startOnLoad'', JBool True), (''theme'', JStr ''dark'')],
        Render ''mermaid-svg-1'' ''graph TD; A-->B;'']
   \<and> calls_of (snd (lifecycle example_host True []
       \<lparr>chart = example_chart, config = None\<rparr> 0 [Timer, Mutations [to_dark], Timer]))
     = [NewObserver, Observe, SetTimeout, Render ''mermaid-svg-0'' ''graph TD; A-->B;'',
        Disconnect, NewObserver, Observe, SetTimeout,
        Render ''mermaid-svg-1'' ''graph TD; A-->B;'']"
  by code_simp

section \<open>One request for each run of the render effect\<close>

text \<open>
  C4, as the code has it. Every event that changes the theme or the chart, and the
  mounting in a window, runs the render effect once. With a configuration present the
  run initialises the engine with the configuration merged with the resolved theme and
  makes exactly one request to the engine, carrying the chart; the counter is incremented
  once the engine has accepted the request. With no configuration the run makes no
  request and leaves the counter alone: it schedules exactly one deferred render, which,
  when its timer fires, makes exactly one request carrying the chart it captured, the
  counter being incremented once the engine has accepted it; the engine is not
  initialised, so the resolved theme is not passed to it.
\<close>

theorem render_effect_one_request:
  "(\<forall>x s'. step E ev s = (x, s')
        \<and> (theme_st s', chart (props s')) \<noteq> (theme_st s, chart (props s)) \<longrightarrow>
      (\<forall>c. config (props s') = Some c \<longrightarrow>
         calls s' = calls s @ [Disconnect, NewObserver, Observe,
                               Initialize (init_options c (theme_st s')),
                               Render (render_id s) (chart (props s'))]
         \<and> renders (calls s') = Suc (renders (calls s))
         \<and> timers s' = timers s
         \<and> (x = None \<longrightarrow> id_ctr s' = Suc (id_ctr s) \<and> inflight s' = inflight s @ [render_id s]))
      \<and> (config (props s') = None \<longrightarrow>
         x = None \<and> calls s' = calls s @ [Disconnect, NewObserver, Observe, SetTimeout]
         \<and> renders (calls s') = renders (calls s)
         \<and> id_ctr s' = id_ctr s \<and> inflight s' = inflight s
         \<and> timers s' = timers s @ [chart (props s')]))
   \<and> (\<forall>x s0. mount E True root p n = (x, Mounted s0) \<longrightarrow>
      (\<forall>c. config p = Some c \<longrightarrow>
         calls s0 = [NewObserver, Observe,
                     Initialize (init_options c (getTheme E root (config p))),
                     Render (''mermaid-svg-'' @ string_of_nat n) (chart p)]
         \<and> timers s0 = []
         \<and> (x = None \<longrightarrow> id_ctr s0 = Suc n \<and> inflight s0 = [''mermaid-svg-'' @ string_of_nat n]))
      \<and> (config p = None \<longrightarrow>
         x = None \<and> calls s0 = [NewObserver, Observe, SetTimeout] \<and> id_ctr s0 = n
         \<and> inflight s0 = [] \<and> timers s0 = [chart p]))
   \<and> (\<forall>diagram rest x s'. timers s = diagram # rest \<and> step E Timer s = (x, s') \<longrightarrow>
         calls s' = calls s @ [Render (render_id s) diagram]
         \<and> renders (calls s') = Suc (renders (calls s))
         \<and> timers s' = rest
         \<and> (x = None \<longrightarrow> id_ctr s' = Suc (id_ctr s) \<and> inflight s' = inflight s @ [render_id s]))"
proof (intro conjI)
  show "\<forall>x s'. step E ev s = (x, s')
        \<and> (theme_st s', chart (props s')) \<noteq> (theme_st s, chart (props s)) \<longrightarrow>
      (\<forall>c. config (props s') = Some c \<longrightarrow>
         calls s' = calls s @ [Disconnect, NewObserver, Observe,
                               Initialize (init_options c (theme_st s')),
                               Render (render_id s) (chart (props s'))]
         \<and> renders (calls s') = Suc (renders (calls s))
         \<and> timers s' = timers s
         \<and> (x = None \<longrightarrow> id_ctr s' = Suc (id_ctr s) \<and> inflight s' = inflight s @ [render_id s]))
      \<and> (config (props s') = None \<longrightarrow>
         x = None \<and> calls s' = calls s @ [Disconnect, NewObserver, Observe, SetTimeout]
         \<and> renders (calls s') = renders (calls s)
         \<and> id_ctr s' = id_ctr s \<and> inflight s' = inflight s
         \<and> timers s' = timers s @ [chart (props s')])"
  proof (intro allI impI)
    fix x s'
    assume a: "step E ev s = (x, s')
        \<and> (theme_st s', chart (props s')) \<noteq> (theme_st s, chart (props s))"
    then have st: "step E ev s = (x, s')"
      and ch: "(theme_st s', chart (props s')) \<noteq> (theme_st s, chart (props s))"
      by blast+
    show "(\<forall>c. config (props s') = Some c \<longrightarrow>
         calls s' = calls s @ [Disconnect, NewObserver, Observe,
                               Initialize (init_options c (theme_st s')),
                               Render (render_id s) (chart (props s'))]
         \<and> renders (calls s') = Suc (renders (calls s))
         \<and> timers s' = timers s
         \<and> (x = None \<longrightarrow> id_ctr s' = Suc (id_ctr s) \<and> inflight s' = inflight s @ [render_id s]))
      \<and> (config (props s') = None \<longrightarrow>
         x = None \<and> calls s' = calls s @ [Disconnect, NewObserver, Observe, SetTimeout]
         \<and> renders (calls s') = renders (calls s)
         \<and> id_ctr s' = id_ctr s \<and> inflight s' = inflight s
         \<and> timers s' = timers s @ [chart (props s')])"
      using step_changed_calls [OF st ch] by (simp add: renders_def)
  qed
next
  show "\<forall>x s0. mount E True root p n = (x, Mounted s0) \<longrightarrow>
      (\<forall>c. config p = Some c \<longrightarrow>
         calls s0 = [NewObserver, Observe,
                     Initialize (init_options c (getTheme E root (config p))),
                     Render (''mermaid-svg-'' @ string_of_nat n) (chart p)]
         \<and> timers s0 = []
         \<and> (x = None \<longrightarrow> id_ctr s0 = Suc n \<and> inflight s0 = [''mermaid-svg-'' @ string_of_nat n]))
      \<and> (config p = None \<longrightarrow>
         x = None \<and> calls s0 = [NewObserver, Observe, SetTimeout] \<and> id_ctr s0 = n
         \<and> inflight s0 = [] \<and> timers s0 = [chart p])"
  proof (intro allI impI)
    fix x s0
    assume "mount E True root p n = (x, Mounted s0)"
    then show "(\<forall>c. config p = Some c \<longrightarrow>
         calls s0 = [NewObserver, Observe,
                     Initialize (init_options c (getTheme E root (config p))),
                     Render (''mermaid-svg-'' @ string_of_nat n) (chart p)]
         \<and> timers s0 = []
         \<and> (x = None \<longrightarrow> id_ctr s0 = Suc n \<and> inflight s0 = [''mermaid-svg-'' @ string_of_nat n]))
      \<and> (config p = None \<longrightarrow>
         x = None \<and> calls s0 = [NewObserver, Observe, SetTimeout] \<and> id_ctr s0 = n
         \<and> inflight s0 = [] \<and> timers s0 = [chart p])"
      by (rule mount_calls)
  qed
next
  show "\<forall>diagram rest x s'. timers s = diagram # rest \<and> step E Timer s = (x, s') \<longrightarrow>
         calls s' = calls s @ [Render (render_id s) diagram]
         \<and> renders (calls s') = Suc (renders (calls s))
         \<and> timers s' = rest
         \<and> (x = None \<longrightarrow> id_ctr s' = Suc (id_ctr s) \<and> inflight s' = inflight s @ [render_id s])"
  proof (intro allI impI)
    fix diagram rest x s'
    assume "timers s = diagram # rest \<and> step E Timer s = (x, s')"
    then have "timers s = diagram # rest" and "step E Timer s = (x, s')"
      by blast+
    then show "calls s' = calls s @ [Render (render_id s) diagram]
         \<and> renders (calls s') = Suc (renders (calls s))
         \<and> timers s' = rest
         \<and> (x = None \<longrightarrow> id_ctr s' = Suc (id_ctr s) \<and> inflight s' = inflight s @ [render_id s])"
      using timer_result [of s diagram rest E x s'] by (simp add: renders_def)
  qed
qed

theorem render_effect_one_request_witness:
  "step example_host (Mutations [to_dark]) example_state = (None, dark_state)
   \<and> (theme_st dark_state, chart (props dark_state))
        \<noteq> (theme_st example_state, chart (props example_state))
   \<and> config (props dark_state) = Some plain_config
   \<and> calls dark_state =
        calls example_state @
          [Disconnect, NewObserver, Observe,
           Initialize (init_options plain_config (theme_st dark_state)),
           Render (render_id example_state) (chart (props dark_state))]
   \<and> renders (calls dark_state) = Suc (renders (calls example_state))
   \<and> id_ctr dark_state = Suc (id_ctr example_state)"
proof -
  have h1: "step example_host (Mutations [to_dark]) example_state = (None, dark_state)"
    by code_simp
  have h2: "(theme_st dark_state, chart (props dark_state))
        \<noteq> (theme_st example_state, chart (props example_state))"
    by (simp add: dark_state_def example_state_def)
  have h3: "config (props dark_state) = Some plain_config"
    by (simp add: dark_state_def example_state_def)
  note t = render_effect_one_request [of example_host "Mutations [to_dark]" example_state,
      THEN conjunct1, rule_format, OF conjI [OF h1 h2], THEN conjunct1, rule_format, OF h3]
  show ?thesis using h1 h2 h3 t by blast
qed

text \<open>
  C4 as stated fails when no configuration is given: mounting under a dark host theme
  calls the engine not at all, only \<^verbatim>\<open>setTimeout\<close>; and when the timer has fired,
  the one request made carries the chart, while the engine has never been initialised, so
  the resolved theme has not reached it.
\<close>

theorem absent_config_request_counterexample:
  "calls_of (snd (lifecycle example_host True [(''data-theme'', ''dark'')]
       \<lparr>chart = example_chart, config = None\<rparr> 0 []))
     = [NewObserver, Observe, SetTimeout]
   \<and> theme_of (snd (lifecycle example_host True [(''data-theme'', ''dark'')]
       \<lparr>chart = example_chart, config = None\<rparr> 0 [Timer])) = Some ''dark''
   \<and> calls_of (snd (lifecycle example_host True [(''data-theme'', ''dark'')]
       \<lparr>chart = example_chart, config = None\<rparr> 0 [Timer]))
     = [NewObserver, Observe, SetTimeout, Render ''mermaid-svg-0'' ''graph TD; A-->B;'']
   \<and> initializations (calls_of (snd (lifecycle example_host True [(''data-theme'', ''dark'')]
       \<lparr>chart = example_chart, config = None\<rparr> 0 [Timer]))) = 0"
  by code_simp

section \<open>The mutation observer\<close>

text \<open>
  C5: a batch of mutations none of which is an attribute mutation of \<^verbatim>\<open>data-theme\<close>
  leads to no call of \<^verbatim>\<open>setTheme\<close> and leaves the component as it was; and when the
  observer callback resolves the theme that is already current, the component is left as
  it was, so no render request is issued and no render is scheduled.
\<close>

theorem unrelated_mutations_ignored:
  "((\<forall>m \<in> set ms. mtype m \<noteq> ''attributes'' \<or> attributeName m \<noteq> Some ''data-theme'') \<longrightarrow>
      observer_callback E cfg ms = None \<and> step E (Mutations ms) s = (None, s))
   \<and> (observer_callback E (config (props s)) ms = Some (theme_st s) \<longrightarrow>
      step E (Mutations ms) s = (None, s))"
  by (simp add: observer_callback_unrelated setTheme_def)

theorem unrelated_mutations_ignored_witness:
  "step example_host (Mutations [to_class, child_added]) example_state = (None, example_state)
   \<and> observer_callback example_host (config (props (example_state\<lparr>theme_st := ''dark''\<rparr>)))
        [child_added, to_dark] = Some ''dark''
   \<and> step example_host (Mutations [child_added, to_dark]) (example_state\<lparr>theme_st := ''dark''\<rparr>)
        = (None, example_state\<lparr>theme_st := ''dark''\<rparr>)"
proof -
  have h1: "\<forall>m \<in> set [to_class, child_added].
              mtype m \<noteq> ''attributes'' \<or> attributeName m \<noteq> Some ''data-theme''"
    by (simp add: to_class_def child_added_def)
  have h2: "observer_callback example_host (config (props (example_state\<lparr>theme_st := ''dark''\<rparr>)))
        [child_added, to_dark] = Some (theme_st (example_state\<lparr>theme_st := ''dark''\<rparr>))"
    by (simp add: child_added_def to_dark_def example_host_def)
  show ?thesis
    using unrelated_mutations_ignored [of "[to_class, child_added]" example_host None example_state] h1
      unrelated_mutations_ignored [of "[child_added, to_dark]" example_host None
         "example_state\<lparr>theme_st := ''dark''\<rparr>"] h2
    by simp
qed

text \<open>
  C6: unmounting returns normally whatever \<^verbatim>\<open>observer.disconnect()\<close> does: the
  disconnection is attempted and an exception it throws is caught and dropped.
\<close>

theorem unmount_never_throws:
  "unmount E s = (None, s\<lparr>calls := calls s @ [Disconnect]\<rparr>)"
  by (simp add: unmount_def observer_cleanup_eq)

theorem unmount_never_throws_witness:
  "fst (observer_disconnect example_host example_state) = Some ''disconnect failed''
   \<and> fst (unmount example_host example_state) = None"
  using unmount_never_throws [of example_host example_state]
  by (simp add: observer_disconnect_def example_host_def)

section \<open>Rendering without a window\<close>




section \<open>Engine failures\<close>

text \<open>
  C8: when the engine throws on a request, the inner \<^verbatim>\<open>render\<close> throws the same
  exception, having logged the call and changed nothing else; the exception leaves the
  render effect when the effect renders at once, and leaves the timer callback when the
  render was deferred; and any event whose handling throws leaves the displayed svg as it
  was and ends the run with that exception.
\<close>

theorem engine_failure_propagates:
  assumes "engine_render E (render_id s) text = Some e"
  shows "render E text s = (Some e, s\<lparr>calls := calls s @ [Render (render_id s) text]\<rparr>)
    \<and> (config (props s) \<noteq> None \<and> text = chart (props s) \<longrightarrow>
         fst (render_effect E s) = Some e \<and> svg_st (snd (render_effect E s)) = svg_st s)
    \<and> (\<forall>rest. timers s = text # rest \<longrightarrow>
         fst (step E Timer s) = Some e \<and> svg_st (snd (step E Timer s)) = svg_st s)
    \<and> (\<forall>ev e' s' evs. step E ev s = (Some e', s') \<longrightarrow>
         svg_st s' = svg_st s \<and> run E (ev # evs) s = (Some e', s'))"
proof -
  have r: "render E text s = (Some e, s\<lparr>calls := calls s @ [Render (render_id s) text]\<rparr>)"
    using assms by (simp add: render_def Let_def)
  have i: "\<And>a. render_id (s\<lparr>calls := a\<rparr>) = render_id s"
    by (simp add: render_id_def)
  have re: "config (props s) \<noteq> None \<and> text = chart (props s) \<longrightarrow>
         fst (render_effect E s) = Some e \<and> svg_st (snd (render_effect E s)) = svg_st s"
    using assms by (auto simp add: render_effect_def render_def Let_def i)
  have t: "render_id (s\<lparr>timers := ts\<rparr>) = render_id s" for ts
    by (simp add: render_id_def)
  have ti: "\<forall>rest. timers s = text # rest \<longrightarrow>
         fst (step E Timer s) = Some e \<and> svg_st (snd (step E Timer s)) = svg_st s"
    using assms by (auto simp add: render_def Let_def t)
  have st: "\<forall>ev e' s' evs. step E ev s = (Some e', s') \<longrightarrow>
         svg_st s' = svg_st s \<and> run E (ev # evs) s = (Some e', s')"
    using step_throw_svg by simp
  from r re ti st show ?thesis by blast
qed

theorem engine_failure_propagates_witness:
  "engine_render example_host (render_id (example_state\<lparr>timers := [[]]\<rparr>)) [] = Some ''Parse error''
   \<and> step example_host Timer (example_state\<lparr>timers := [[]]\<rparr>)
       = (Some ''Parse error'',
          example_state\<lparr>timers := [], calls := [Render ''mermaid-svg-2'' []]\<rparr>)"
proof -
  have h: "engine_render example_host (render_id (example_state\<lparr>timers := [[]]\<rparr>)) [] = Some ''Parse error''"
    by (simp add: example_host_def)
  have "step example_host Timer (example_state\<lparr>timers := [[]]\<rparr>)
       = (Some ''Parse error'',
          example_state\<lparr>timers := [], calls := [Render ''mermaid-svg-2'' []]\<rparr>)"
    by code_simp
  with h show ?thesis using engine_failure_propagates [OF h] by simp
qed

section \<open>The external view\<close>

text \<open>
  C9: \<^verbatim>\<open>openSvgInWindow\<close> calls nothing on the host when the svg is absent or empty;
  when it is a non-empty string it creates an object URL for a blob of type
  \<^verbatim>\<open>image/svg+xml\<close> holding the svg and opens that URL in a window.
\<close>

theorem openSvgInWindow_cases:
  "(svg = None \<or> svg = Some [] \<longrightarrow> openSvgInWindow E svg = [])
   \<and> (\<forall>s. svg = Some s \<and> s \<noteq> [] \<longrightarrow>
        openSvgInWindow E svg =
          [CreateObjectURL \<lparr>parts = [s], mime = ''image/svg+xml''\<rparr>,
           WindowOpen (createObjectURL E \<lparr>parts = [s], mime = ''image/svg+xml''\<rparr>)])"
  by (auto simp add: openSvgInWindow_def Let_def)

theorem openSvgInWindow_cases_witness:
  "openSvgInWindow example_host None = []
   \<and> openSvgInWindow example_host (Some []) = []
   \<and> openSvgInWindow example_host (Some ''<svg/>'') =
        [CreateObjectURL \<lparr>parts = [''<svg/>''], mime = ''image/svg+xml''\<rparr>,
         WindowOpen ''blob:<svg/>'']"
  using openSvgInWindow_cases [of None example_host]
    openSvgInWindow_cases [of "Some []" example_host]
    openSvgInWindow_cases [of "Some ''<svg/>''" example_host]
  by (simp add: example_host_def)

text \<open>
  C10: a component mounted in a window has an empty svg until the first completion
  callback: after mounting and any sequence of events none of which is a completion, the
  svg is the empty string, the container's markup is empty and a click on the opener
  calls nothing on the host.
\<close>

theorem svg_empty_before_first_completion:
  assumes "mount E True root p n = (x, c)"
    and "\<forall>ev \<in> set evs. \<not> is_completion ev"
  shows "\<exists>s. c = Mounted s
           \<and> svg_st (snd (run E evs s)) = []
           \<and> (\<exists>b. Mermaid E (Mounted (snd (run E evs s))) = Wrapper b [])
           \<and> click_opener E (Mermaid E (Mounted (snd (run E evs s)))) = []"
proof -
  from assms(1) obtain s where c: "c = Mounted s" and s: "svg_st s = []"
    by (auto simp add: mount_window render_effect_frame observer_effect_def)
  have e: "svg_st (snd (run E evs s)) = []"
    using run_svg [OF assms(2), of E s] s by simp
  have "click_opener E (Mermaid E (Mounted (snd (run E evs s)))) = []"
    by (simp add: e SvgOpenExternal_def openSvgInWindow_def)
  with c e show ?thesis by simp
qed

theorem svg_empty_before_first_completion_witness:
  "svg_of (snd (lifecycle example_host True [] \<lparr>chart = example_chart, config = Some plain_config\<rparr> 0
       [Mutations [to_dark], Props \<lparr>chart = ''graph LR; B-->C;'', config = None\<rparr> True, Timer]))
     = Some []"
proof -
  let ?p = "\<lparr>chart = example_chart, config = Some plain_config\<rparr>"
  let ?evs = "[Mutations [to_dark], Props \<lparr>chart = ''graph LR; B-->C;'', config = None\<rparr> True, Timer]"
  have "fst (mount example_host True [] ?p 0) = None"
    by code_simp
  then obtain c where m: "mount example_host True [] ?p 0 = (None, c)"
    by (cases "mount example_host True [] ?p 0") simp
  have n: "\<forall>ev \<in> set ?evs. \<not> is_completion ev" by simp
  from svg_empty_before_first_completion [OF m n]
  obtain s where c: "c = Mounted s" and e: "svg_st (snd (run example_host ?evs s)) = []"
    by blast
  obtain x' s' where r: "run example_host ?evs s = (x', s')"
    by (cases "run example_host ?evs s")
  show ?thesis using e by (simp add: lifecycle_def m c r del: run.simps)
qed

end
